theory Spec2Isabelle
  imports Complex_Main "HOL-Library.Sublist" "HOL-Library.AList"
begin

section \<open>Career recommender: the data model\<close>

text \<open>
  The engine of \<^verbatim>\<open>backend/recommender.py\<close>, the catalog of \<^verbatim>\<open>backend/database.py\<close>,
  the models of \<^verbatim>\<open>backend/models.py\<close> and the learning-path endpoint of
  \<^verbatim>\<open>backend/main.py\<close>.

  Conventions of the embedding.
  \<^item> A Python \<^verbatim>\<open>str\<close> is a \<open>string\<close>; \<^verbatim>\<open>str.lower\<close> folds the ASCII letters.
  \<^item> A Python \<^verbatim>\<open>float\<close> is a \<open>rat\<close>: arithmetic is exact, and \<^verbatim>\<open>round(x, 2)\<close> rounds the
    exact value to the nearest hundredth, ties to the even neighbour.
  \<^item> A Python \<^verbatim>\<open>set\<close> that is only tested for membership or counted is a HOL set. The one
    set the code iterates over (\<^verbatim>\<open>user_skills_lower\<close>) has an iteration order the language
    leaves open (for strings it changes with the hash seed of the process), so every function
    that iterates over it takes that order as the parameter \<open>it\<close>: \<open>it xs\<close> enumerates
    the set built from the elements \<open>xs\<close>.
  \<^item> A Python \<^verbatim>\<open>dict\<close> is an association list in insertion order; writing an existing key
    keeps its position and replaces its value.
  \<^item> An exception is the \<open>Inl\<close> branch of a sum, and so is the error dictionary that
    \<^verbatim>\<open>analyze_skills_gap\<close> returns for an unknown career.
\<close>

record career_details =
  required_skills :: "string list"
  nice_to_have :: "string list"
  description :: string
  avg_salary :: string
  growth_outlook :: string
  education_required :: string
  industry :: "string list option"

type_synonym career_db = "(string \<times> career_details) list"

record student_profile =
  skills :: "string list"
  interests :: "string list"
  education_level :: string
  gpa :: "rat option"
  experience_years :: "int option"

record career_recommendation =
  career :: string
  match_score :: rat
  matching_skills :: "string list"
  skills_to_learn :: "string list"
  rec_description :: string
  salary_info :: string
  rec_growth_outlook :: string

record gap_analysis =
  target_career :: string
  current_skills :: "string list"
  gap_required_skills :: "string list"
  gap_nice_to_have :: "string list"
  missing_required :: "string list"
  missing_nice :: "string list"
  matching_required :: "string list"
  matching_nice :: "string list"
  completion_percentage :: rat
  priority_skills :: "string list"

datatype difficulty_level = Beginner | Intermediate | Advanced

record learning_resource =
  res_type :: string
  res_name :: string
  platform :: string
  url :: string

record learning_module =
  module_order :: int
  skill :: string
  difficulty :: difficulty_level
  estimated_weeks :: int
  resources :: "learning_resource list"

record learning_path_response =
  lp_target_career :: string
  learning_path :: "learning_module list"
  total_weeks :: int
  total_skills :: nat

datatype error = ZeroDivisionError | ValidationError string | CareerNotFound

datatype http_error = HTTPException nat string

section \<open>Python primitives\<close>

definition lower_char :: "char \<Rightarrow> char" where
  "lower_char c =
     (let n = (of_char c :: nat) in if 65 \<le> n \<and> n \<le> 90 then char_of (n + 32) else c)"

definition lower :: "string \<Rightarrow> string" where
  "lower s = map lower_char s"

text \<open>\<^verbatim>\<open>a in b\<close> on two strings: \<open>a\<close> occurs in \<open>b\<close> as a contiguous run.\<close>

definition str_in :: "string \<Rightarrow> string \<Rightarrow> bool" where
  "str_in a b = sublist a b"

definition py_div :: "rat \<Rightarrow> rat \<Rightarrow> error + rat" where
  "py_div a b = (if b = 0 then Inl ZeroDivisionError else Inr (a / b))"

definition bind_err :: "error + 'a \<Rightarrow> ('a \<Rightarrow> error + 'b) \<Rightarrow> error + 'b" where
  "bind_err m f = (case m of Inl e \<Rightarrow> Inl e | Inr x \<Rightarrow> f x)"

definition round_half_even :: "rat \<Rightarrow> int" where
  "round_half_even q =
     (let f = \<lfloor>q\<rfloor>; d = q - of_int f
      in if d < 1 / 2 then f else if 1 / 2 < d then f + 1 else if even f then f else f + 1)"

definition py_round2 :: "rat \<Rightarrow> rat" where
  "py_round2 x = of_int (round_half_even (x * 100)) / 100"


text \<open>\<^verbatim>\<open>{s.lower(): s for s in xs}\<close>\<close>

definition lower_dict :: "string list \<Rightarrow> (string \<times> string) list" where
  "lower_dict xs = fold (\<lambda>s d. AList.update (lower s) s d) xs []"

text \<open>\<^verbatim>\<open>[d[k] for k in ks if k in d]\<close>\<close>

definition lookup_present :: "(string \<times> string) list \<Rightarrow> string list \<Rightarrow> string list" where
  "lookup_present d ks = List.map_filter (map_of d) ks"

text \<open>\<^verbatim>\<open>[d[k] for k in d if k not in s]\<close>\<close>

definition values_absent :: "(string \<times> string) list \<Rightarrow> string set \<Rightarrow> string list" where
  "values_absent d s = map snd (filter (\<lambda>kv. fst kv \<notin> s) d)"


section \<open>The scoring functions\<close>

definition required_score :: "string list \<Rightarrow> string list \<Rightarrow> error + rat" where
  "required_score user_skills career_skills =
     (let user_skills_lower = set (map lower user_skills);
          required_lower = set (map lower career_skills);
          required_matches = card (user_skills_lower \<inter> required_lower)
      in bind_err (py_div (of_nat required_matches) (of_nat (card required_lower)))
           (\<lambda>q. Inr (q * 70)))"

definition nice_score :: "string list \<Rightarrow> string list \<Rightarrow> error + rat" where
  "nice_score user_skills nice =
     (let user_skills_lower = set (map lower user_skills);
          nice_lower = set (map lower nice)
      in if nice \<noteq> [] then
           (let nice_matches = card (user_skills_lower \<inter> nice_lower)
            in bind_err (py_div (of_nat nice_matches) (of_nat (card nice_lower)))
                 (\<lambda>q. Inr (q * 30)))
         else Inr 0)"

definition calculate_skill_match_score ::
    "string list \<Rightarrow> string list \<Rightarrow> string list \<Rightarrow> error + rat" where
  "calculate_skill_match_score user_skills career_skills nice =
     (if career_skills = [] then Inr 0
      else bind_err (required_score user_skills career_skills) (\<lambda>rs.
           bind_err (nice_score user_skills nice) (\<lambda>ns.
           Inr (py_round2 (rs + ns)))))"

definition industry_boost :: "string \<Rightarrow> career_details \<Rightarrow> int \<Rightarrow> int" where
  "industry_boost interest career_details boost =
     (case industry career_details of
        None \<Rightarrow> boost
      | Some inds \<Rightarrow>
          fold (\<lambda>ind b. if str_in interest (lower ind) then b + 3 else b) inds boost)"

definition calculate_interest_boost :: "string list \<Rightarrow> string \<Rightarrow> career_details \<Rightarrow> int" where
  "calculate_interest_boost ints career_name career_details =
     (if ints = [] then 0
      else
        let interests_lower = map lower ints;
            career_lower = lower career_name;
            boost = fold (\<lambda>interest boost.
                      industry_boost interest career_details
                        (if str_in interest career_lower then boost + 5 else boost))
                      interests_lower 0
        in min boost 10)"

definition calculate_experience_match :: "int \<Rightarrow> career_details \<Rightarrow> int" where
  "calculate_experience_match user_experience career_details =
     (if user_experience = 0 then 0
      else if user_experience < 2 then 2
      else if user_experience < 5 then 5
      else 8)"

text \<open>\<^verbatim>\<open>profile.experience_years or 0\<close>\<close>

definition experience_or_0 :: "student_profile \<Rightarrow> int" where
  "experience_or_0 profile = (case experience_years profile of None \<Rightarrow> 0 | Some n \<Rightarrow> n)"

text \<open>
  The constructor of \<^verbatim>\<open>CareerRecommendation\<close> validates \<^verbatim>\<open>match_score\<close> against
  \<^verbatim>\<open>ge=0, le=100\<close>.
\<close>

definition CareerRecommendation ::
    "string \<Rightarrow> rat \<Rightarrow> string list \<Rightarrow> string list \<Rightarrow> string \<Rightarrow> string \<Rightarrow> string
       \<Rightarrow> error + career_recommendation" where
  "CareerRecommendation c s ms sl d sal g =
     (if 0 \<le> s \<and> s \<le> 100 then
        Inr \<lparr>career = c, match_score = s, matching_skills = ms, skills_to_learn = sl,
             rec_description = d, salary_info = sal, rec_growth_outlook = g\<rparr>
      else Inl (ValidationError ''match_score''))"

text \<open>The body of the loop of \<^verbatim>\<open>recommend_careers\<close>, for one catalog item.\<close>

definition recommend_one ::
    "(string list \<Rightarrow> string list) \<Rightarrow> student_profile \<Rightarrow> string \<times> career_details
       \<Rightarrow> error + career_recommendation" where
  "recommend_one it profile item =
     (let career_name = fst item; details = snd item
      in bind_err (calculate_skill_match_score (skills profile) (required_skills details)
                     (nice_to_have details)) (\<lambda>skill_score.
         let interest_boost = calculate_interest_boost (interests profile) career_name details;
             experience_boost = calculate_experience_match (experience_or_0 profile) details;
             final_score = min (skill_score + of_int interest_boost + of_int experience_boost) 100;
             user_skills_lower = map lower (skills profile);
             required_lower = lower_dict (required_skills details);
             matching = lookup_present required_lower (it user_skills_lower);
             to_learn = filter (\<lambda>skill. lower skill \<notin> set user_skills_lower)
                          (required_skills details)
         in CareerRecommendation career_name final_score matching (take 5 to_learn)
              (description details) (avg_salary details) (growth_outlook details)))"





section \<open>Gap analysis and learning path\<close>

definition analyze_skills_gap ::
    "career_db \<Rightarrow> (string list \<Rightarrow> string list) \<Rightarrow> student_profile \<Rightarrow> string
       \<Rightarrow> error + gap_analysis" where
  "analyze_skills_gap db it profile target =
     (case map_of db target of
        None \<Rightarrow> Inl CareerNotFound
      | Some details \<Rightarrow>
          let user_skills_lower = map lower (skills profile);
              required = required_skills details;
              nice = nice_to_have details;
              required_lower = lower_dict required;
              nice_lower = lower_dict nice;
              missing_req = values_absent required_lower (set user_skills_lower);
              missing_n = values_absent nice_lower (set user_skills_lower);
              matching_req = lookup_present required_lower (it user_skills_lower);
              matching_n = lookup_present nice_lower (it user_skills_lower)
          in bind_err
               (if required \<noteq> [] then
                  bind_err (py_div (of_nat (length matching_req)) (of_nat (length required)))
                    (\<lambda>q. Inr (q * 100))
                else Inr 0)
               (\<lambda>completion.
                 Inr \<lparr>target_career = target,
                      current_skills = skills profile,
                      gap_required_skills = required,
                      gap_nice_to_have = nice,
                      missing_required = missing_req,
                      missing_nice = missing_n,
                      matching_required = matching_req,
                      matching_nice = matching_n,
                      completion_percentage = py_round2 completion,
                      priority_skills = take 3 missing_req @ take 2 missing_n\<rparr>))"

text \<open>\<^verbatim>\<open>skill.replace(' ', '%20')\<close>\<close>

definition replace_spaces :: "string \<Rightarrow> string" where
  "replace_spaces s = concat (map (\<lambda>c. if c = CHR '' '' then ''%20'' else [c]) s)"

definition get_learning_resources :: "string \<Rightarrow> learning_resource list" where
  "get_learning_resources sk =
     [\<lparr>res_type = ''Course'', res_name = sk @ '' Complete Course'', platform = ''Coursera'',
       url = ''https://www.coursera.org/search?query='' @ replace_spaces sk\<rparr>,
      \<lparr>res_type = ''Documentation'', res_name = ''Official '' @ sk @ '' Docs'',
       platform = ''Official Website'', url = ''#''\<rparr>,
      \<lparr>res_type = ''Practice'', res_name = sk @ '' Exercises'',
       platform = ''LeetCode/HackerRank'', url = ''https://leetcode.com''\<rparr>]"

definition skill_time_estimates :: "difficulty_level \<Rightarrow> int" where
  "skill_time_estimates d = (case d of Beginner \<Rightarrow> 8 | Intermediate \<Rightarrow> 12 | Advanced \<Rightarrow> 16)"

definition skill_difficulty :: "string \<Rightarrow> difficulty_level" where
  "skill_difficulty sk =
     (if sk \<in> set [''Python'', ''JavaScript'', ''HTML'', ''CSS'', ''Git''] then Beginner
      else if sk \<in> set [''Machine Learning'', ''Deep Learning'', ''System Design''] then Advanced
      else Intermediate)"

definition learning_module_of :: "nat \<times> string \<Rightarrow> learning_module" where
  "learning_module_of p =
     (let idx = fst p; sk = snd p; d = skill_difficulty sk
      in \<lparr>module_order = int idx, skill = sk, difficulty = d,
          estimated_weeks = skill_time_estimates d,
          resources = get_learning_resources sk\<rparr>)"

definition get_learning_path ::
    "career_db \<Rightarrow> (string list \<Rightarrow> string list) \<Rightarrow> student_profile \<Rightarrow> string
       \<Rightarrow> error + learning_module list" where
  "get_learning_path db it profile target =
     (case analyze_skills_gap db it profile target of
        Inl CareerNotFound \<Rightarrow> Inr []
      | Inl e \<Rightarrow> Inl e
      | Inr gap \<Rightarrow> Inr (map learning_module_of (enumerate 1 (priority_skills gap))))"

text \<open>\<^verbatim>\<open>str(e)\<close> of an exception, for the detail of a 500 response.\<close>

definition str_of_error :: "error \<Rightarrow> string" where
  "str_of_error e =
     (case e of ZeroDivisionError \<Rightarrow> ''division by zero''
      | ValidationError m \<Rightarrow> m
      | CareerNotFound \<Rightarrow> ''Career not found'')"

text \<open>The endpoint \<^verbatim>\<open>/learning-path\<close> of \<^verbatim>\<open>main.py\<close>, over the engine's catalog.\<close>

definition get_learning_path_endpoint ::
    "career_db \<Rightarrow> (string list \<Rightarrow> string list) \<Rightarrow> student_profile \<Rightarrow> string
       \<Rightarrow> http_error + learning_path_response" where
  "get_learning_path_endpoint db it profile target =
     (case get_learning_path db it profile target of
        Inl e \<Rightarrow> Inl (HTTPException 500 (''Error generating learning path: '' @ str_of_error e))
      | Inr path \<Rightarrow>
          if path = [] then
            Inl (HTTPException 404 ''Career not found or no learning path needed'')
          else
            Inr \<lparr>lp_target_career = target, learning_path = path,
                 total_weeks = sum_list (map estimated_weeks path),
                 total_skills = length path\<rparr>)"

section \<open>The catalog\<close>

text \<open>\<^verbatim>\<open>CAREER_DATABASE\<close> of \<^verbatim>\<open>backend/database.py\<close>, in the order of the literal.\<close>

definition Data_Scientist :: career_details where
  "Data_Scientist =
     \<lparr>required_skills =
        [''Python'', ''Machine Learning'', ''Statistics'', ''SQL'',
         ''Data Visualization'', ''Pandas'', ''NumPy'', ''Scikit-learn'',
         ''Deep Learning'', ''Data Analysis''],
      nice_to_have =
        [''TensorFlow'', ''PyTorch'', ''Spark'', ''AWS'',
         ''R'', ''Tableau''],
      description =
        ''Analyze complex data to help companies make data-driven decisions'',
      avg_salary = ''$120,000 - $160,000'',
      growth_outlook = ''22% (Much faster than average)'',
      education_required =
        (''Bachelor'' @ [CHR 0x27] @ ''s or Master'' @ [CHR 0x27] @ ''s in Computer Science, Statistics, or related field''),
      industry =
        Some [''Technology'', ''Finance'', ''Healthcare'', ''E-commerce'']\<rparr>"

definition Software_Engineer :: career_details where
  "Software_Engineer =
     \<lparr>required_skills =
        [''Python'', ''Java'', ''Algorithms'', ''Data Structures'',
         ''System Design'', ''Git'', ''Testing'', ''Debugging'',
         ''API'', ''Databases''],
      nice_to_have =
        [''Docker'', ''Kubernetes'', ''AWS'', ''Microservices'',
         ''CI/CD''],
      description =
        ''Design, develop, and maintain software applications and systems'',
      avg_salary = ''$110,000 - $150,000'',
      growth_outlook = ''25% (Much faster than average)'',
      education_required =
        (''Bachelor'' @ [CHR 0x27] @ ''s in Computer Science or related field''),
      industry =
        Some [''Technology'', ''Finance'', ''Healthcare'', ''Entertainment'']\<rparr>"

definition Machine_Learning_Engineer :: career_details where
  "Machine_Learning_Engineer =
     \<lparr>required_skills =
        [''Python'', ''Machine Learning'', ''Deep Learning'', ''TensorFlow'',
         ''PyTorch'', ''MLOps'', ''Docker'', ''Kubernetes'',
         ''Cloud'', ''Algorithms''],
      nice_to_have =
        [''Spark'', ''AWS'', ''Azure'', ''Model Optimization'',
         ''Edge Computing''],
      description =
        ''Build and deploy machine learning models at scale in production'',
      avg_salary = ''$140,000 - $180,000'',
      growth_outlook = ''21% (Much faster than average)'',
      education_required =
        (''Bachelor'' @ [CHR 0x27] @ ''s or Master'' @ [CHR 0x27] @ ''s in CS, ML, or related field''),
      industry =
        Some [''Technology'', ''AI Companies'', ''Research'', ''Autonomous Vehicles'']\<rparr>"

definition Full_Stack_Developer :: career_details where
  "Full_Stack_Developer =
     \<lparr>required_skills =
        [''JavaScript'', ''React'', ''Node.js'', ''HTML'',
         ''CSS'', ''SQL'', ''Git'', ''API'',
         ''REST'', ''Express''],
      nice_to_have =
        [''TypeScript'', ''Next.js'', ''MongoDB'', ''Docker'',
         ''AWS''],
      description =
        ''Develop both front-end and back-end of web applications'',
      avg_salary = ''$100,000 - $140,000'',
      growth_outlook = ''23% (Much faster than average)'',
      education_required =
        (''Bachelor'' @ [CHR 0x27] @ ''s in Computer Science or self-taught with portfolio''),
      industry =
        Some [''Technology'', ''Startups'', ''E-commerce'', ''Media'']\<rparr>"

definition Data_Engineer :: career_details where
  "Data_Engineer =
     \<lparr>required_skills =
        [''Python'', ''SQL'', ''Spark'', ''Kafka'',
         ''ETL'', ''Data Pipelines'', ''AWS'', ''Airflow'',
         ''Databases'', ''Big Data''],
      nice_to_have =
        [''Snowflake'', ''Databricks'', ''Kubernetes'', ''Terraform''],
      description =
        ''Build and maintain data infrastructure and pipelines'',
      avg_salary = ''$115,000 - $155,000'',
      growth_outlook = ''20% (Much faster than average)'',
      education_required =
        (''Bachelor'' @ [CHR 0x27] @ ''s in Computer Science or Data Engineering''),
      industry =
        Some [''Technology'', ''Finance'', ''E-commerce'', ''Healthcare'']\<rparr>"

definition DevOps_Engineer :: career_details where
  "DevOps_Engineer =
     \<lparr>required_skills =
        [''Linux'', ''Docker'', ''Kubernetes'', ''CI/CD'',
         ''AWS'', ''Jenkins'', ''Terraform'', ''Ansible'',
         ''Git'', ''Monitoring''],
      nice_to_have =
        [''Python'', ''Shell'', ''Azure'', ''GCP'',
         ''Security''],
      description =
        ''Automate and optimize software development and deployment processes'',
      avg_salary = ''$110,000 - $145,000'',
      growth_outlook = ''20% (Much faster than average)'',
      education_required =
        (''Bachelor'' @ [CHR 0x27] @ ''s in Computer Science or System Administration''),
      industry =
        Some [''Technology'', ''Cloud Services'', ''Finance'', ''All Industries'']\<rparr>"

definition Frontend_Developer :: career_details where
  "Frontend_Developer =
     \<lparr>required_skills =
        [''JavaScript'', ''React'', ''HTML'', ''CSS'',
         ''TypeScript'', ''Git'', ''Responsive Design'', ''API'',
         ''Testing''],
      nice_to_have =
        [''Vue.js'', ''Angular'', ''Redux'', ''Webpack'',
         ''Performance Optimization''],
      description =
        ''Create user interfaces and experiences for web applications'',
      avg_salary = ''$90,000 - $130,000'',
      growth_outlook = ''23% (Much faster than average)'',
      education_required =
        (''Bachelor'' @ [CHR 0x27] @ ''s in CS or self-taught with strong portfolio''),
      industry =
        Some [''Technology'', ''Design Agencies'', ''E-commerce'', ''Media'']\<rparr>"

definition Backend_Developer :: career_details where
  "Backend_Developer =
     \<lparr>required_skills =
        [''Python'', ''Java'', ''Node.js'', ''SQL'',
         ''API'', ''REST'', ''Databases'', ''System Design'',
         ''Git'', ''Security''],
      nice_to_have =
        [''Microservices'', ''GraphQL'', ''Docker'', ''AWS'',
         ''Caching''],
      description =
        ''Develop server-side logic and database management'',
      avg_salary = ''$105,000 - $140,000'',
      growth_outlook = ''22% (Much faster than average)'',
      education_required =
        (''Bachelor'' @ [CHR 0x27] @ ''s in Computer Science''),
      industry =
        Some [''Technology'', ''Finance'', ''SaaS'', ''E-commerce'']\<rparr>"

definition Cloud_Architect :: career_details where
  "Cloud_Architect =
     \<lparr>required_skills =
        [''AWS'', ''Azure'', ''GCP'', ''System Design'',
         ''Networking'', ''Security'', ''Docker'', ''Kubernetes'',
         ''Terraform'', ''Microservices''],
      nice_to_have =
        [''Multi-Cloud'', ''Cost Optimization'', ''Compliance'', ''Serverless''],
      description =
        ''Design and oversee cloud computing strategies'',
      avg_salary = ''$135,000 - $175,000'',
      growth_outlook = ''19% (Much faster than average)'',
      education_required =
        (''Bachelor'' @ [CHR 0x27] @ ''s + Cloud Certifications''),
      industry =
        Some [''Technology'', ''Consulting'', ''Enterprise'', ''All Industries'']\<rparr>"

definition AI_Research_Scientist :: career_details where
  "AI_Research_Scientist =
     \<lparr>required_skills =
        [''Machine Learning'', ''Deep Learning'', ''Python'', ''Mathematics'',
         ''Research'', ''PyTorch'', ''TensorFlow'', ''NLP'',
         ''Computer Vision'', ''Statistics''],
      nice_to_have =
        [''Publications'', ''PhD'', ''Reinforcement Learning'', ''Transformers''],
      description =
        ''Conduct cutting-edge research in artificial intelligence'',
      avg_salary = ''$150,000 - $200,000+'',
      growth_outlook = ''24% (Much faster than average)'',
      education_required =
        (''Master'' @ [CHR 0x27] @ ''s or PhD in CS, AI, or related field''),
      industry =
        Some [''Research Labs'', ''Big Tech'', ''AI Startups'', ''Academia'']\<rparr>"

definition Business_Analyst :: career_details where
  "Business_Analyst =
     \<lparr>required_skills =
        [''Data Analysis'', ''Excel'', ''SQL'', ''Business Intelligence'',
         ''Communication'', ''Problem Solving'', ''Requirements Gathering'', ''Analytics''],
      nice_to_have =
        [''Python'', ''Tableau'', ''Power BI'', ''Agile'',
         ''Project Management''],
      description =
        ''Bridge business needs and technical solutions through data analysis'',
      avg_salary = ''$80,000 - $110,000'',
      growth_outlook = ''14% (Faster than average)'',
      education_required =
        (''Bachelor'' @ [CHR 0x27] @ ''s in Business, Economics, or related field''),
      industry =
        Some [''Consulting'', ''Finance'', ''Technology'', ''Healthcare'']\<rparr>"

definition Product_Manager :: career_details where
  "Product_Manager =
     \<lparr>required_skills =
        [''Product Strategy'', ''Communication'', ''Agile'', ''User Research'',
         ''Analytics'', ''Roadmap Planning'', ''Stakeholder Management'', ''Problem Solving''],
      nice_to_have =
        [''Technical Background'', ''SQL'', ''A/B Testing'', ''Design Thinking''],
      description =
        ''Define product vision and strategy, working with engineering and design'',
      avg_salary = ''$120,000 - $160,000'',
      growth_outlook = ''18% (Much faster than average)'',
      education_required =
        (''Bachelor'' @ [CHR 0x27] @ ''s in any field + product experience''),
      industry =
        Some [''Technology'', ''SaaS'', ''E-commerce'', ''Finance'']\<rparr>"

definition CAREER_DATABASE :: career_db where
  "CAREER_DATABASE =
     [(''Data Scientist'', Data_Scientist),
      (''Software Engineer'', Software_Engineer),
      (''Machine Learning Engineer'', Machine_Learning_Engineer),
      (''Full Stack Developer'', Full_Stack_Developer),
      (''Data Engineer'', Data_Engineer),
      (''DevOps Engineer'', DevOps_Engineer),
      (''Frontend Developer'', Frontend_Developer),
      (''Backend Developer'', Backend_Developer),
      (''Cloud Architect'', Cloud_Architect),
      (''AI Research Scientist'', AI_Research_Scientist),
      (''Business Analyst'', Business_Analyst),
      (''Product Manager'', Product_Manager)]"



section \<open>The formulas of the specification\<close>

text \<open>
  The specification's own wording of the two scores, to compare with the code: overlaps are
  counted on the case-folded, duplicate-free skill lists.
\<close>

definition ci_distinct :: "string list \<Rightarrow> string list" where
  "ci_distinct xs = remdups (map lower xs)"

definition ci_overlap :: "string list \<Rightarrow> string list \<Rightarrow> nat" where
  "ci_overlap us cs = length (filter (\<lambda>k. k \<in> set (map lower us)) (ci_distinct cs))"

definition niceScore :: "string list \<Rightarrow> string list \<Rightarrow> rat" where
  "niceScore us ns =
     (if ns = [] then 0
      else of_nat (ci_overlap us ns) / of_nat (length (ci_distinct ns)) * 30)"

definition skillMatch :: "string list \<Rightarrow> string list \<Rightarrow> string list \<Rightarrow> rat" where
  "skillMatch us req ns =
     (if req = [] then 0
      else py_round2 (of_nat (ci_overlap us req) / of_nat (length (ci_distinct req)) * 70
                      + niceScore us ns))"

definition interest_points :: "string \<Rightarrow> string \<Rightarrow> string list \<Rightarrow> int" where
  "interest_points interest career_name inds =
     (if str_in (lower interest) (lower career_name) then 5 else 0)
     + 3 * int (length (filter (\<lambda>ind. str_in (lower interest) (lower ind)) inds))"

definition interestBoost :: "string list \<Rightarrow> string \<Rightarrow> string list \<Rightarrow> int" where
  "interestBoost ints career_name inds =
     (if ints = [] then 0
      else min (sum_list (map (\<lambda>i. interest_points i career_name inds) ints)) 10)"

definition final_score :: "student_profile \<Rightarrow> string \<times> career_details \<Rightarrow> rat" where
  "final_score p item =
     min (skillMatch (skills p) (required_skills (snd item)) (nice_to_have (snd item))
          + of_int (calculate_interest_boost (interests p) (fst item) (snd item))
          + of_int (calculate_experience_match (experience_or_0 p) (snd item))) 100"

definition sample_profile :: student_profile where
  "sample_profile =
     \<lparr>skills = [''Python'', ''SQL'', ''Machine Learning'', ''Statistics'', ''Pandas''],
      interests = [], education_level = ''Bachelor'', gpa = None, experience_years = Some 3\<rparr>"


section \<open>Basic facts\<close>

lemma bind_err_Inr [simp]: "bind_err (Inr x) f = f x"
  by (simp add: bind_err_def)

lemma bind_err_Inl [simp]: "bind_err (Inl e) f = Inl e"
  by (simp add: bind_err_def)

lemma py_div_nonzero: "b \<noteq> 0 \<Longrightarrow> py_div a b = Inr (a / b)"
  by (simp add: py_div_def)













lemma overlap_ratio_ge_0:
  "(0::rat) \<le> of_nat (ci_overlap us cs) / of_nat (length (ci_distinct cs))"
  by simp


section \<open>Skill match and interest boost\<close>



text \<open>The inner and the outer loop of \<^verbatim>\<open>calculate_interest_boost\<close> as sums.\<close>

lemma industry_fold:
  "fold (\<lambda>ind b. if P ind then b + 3 else b) inds (b::int)
   = b + 3 * int (length (filter P inds))"
  by (induction inds arbitrary: b) simp_all

lemma industry_boost_Some:
  "industry d = Some inds \<Longrightarrow>
   industry_boost interest d b
   = b + 3 * int (length (filter (\<lambda>ind. str_in interest (lower ind)) inds))"
  by (simp add: industry_boost_def industry_fold)

lemma interest_fold:
  "industry d = Some inds \<Longrightarrow>
   fold (\<lambda>interest boost.
           industry_boost interest d
             (if str_in interest (lower nm) then boost + 5 else boost))
        (map lower ints) b
   = b + sum_list (map (\<lambda>i. interest_points i nm inds) ints)"
  by (induction ints arbitrary: b) (simp_all add: industry_boost_Some interest_points_def)

text \<open>
  Claim C2. For every interest list, career name and list of industry tags,
  \<^verbatim>\<open>calculate_interest_boost\<close> is 0 for an empty interest list; otherwise it is the sum,
  over the interests, of 5 when the lower-cased interest occurs in the lower-cased career name
  and of 3 for each industry tag it occurs in, capped at 10. It never exceeds 10.
\<close>

theorem interest_boost_formula:
  "calculate_interest_boost ints nm (d\<lparr>industry := Some inds\<rparr>) = interestBoost ints nm inds
   \<and> interestBoost [] nm inds = 0
   \<and> calculate_interest_boost ints nm (d\<lparr>industry := Some inds\<rparr>) \<le> 10"
proof -
  have ind: "industry (d\<lparr>industry := Some inds\<rparr>) = Some inds" by simp
  show ?thesis
    by (simp add: calculate_interest_boost_def interestBoost_def Let_def
        interest_fold [OF ind])
qed

theorem interest_boost_formula_witness:
  "calculate_interest_boost [''DATA''] ''Data Scientist''
     (Data_Scientist\<lparr>industry := Some [''Technology'', ''Big Data'']\<rparr>) = 8"
proof -
  have "interestBoost [''DATA''] ''Data Scientist'' [''Technology'', ''Big Data''] = 8"
    by code_simp
  with interest_boost_formula
         [where ints = "[''DATA'']" and nm = "''Data Scientist''" and d = Data_Scientist
            and inds = "[''Technology'', ''Big Data'']"]
  show ?thesis by simp
qed




























section \<open>Unknown careers\<close>



lemma analyze_skills_gap_found:
  assumes "map_of db target = Some d"
  shows "analyze_skills_gap db it p target =
     Inr \<lparr>target_career = target,
          current_skills = skills p,
          gap_required_skills = required_skills d,
          gap_nice_to_have = nice_to_have d,
          missing_required =
            values_absent (lower_dict (required_skills d)) (set (map lower (skills p))),
          missing_nice =
            values_absent (lower_dict (nice_to_have d)) (set (map lower (skills p))),
          matching_required =
            lookup_present (lower_dict (required_skills d)) (it (map lower (skills p))),
          matching_nice =
            lookup_present (lower_dict (nice_to_have d)) (it (map lower (skills p))),
          completion_percentage =
            py_round2 (if required_skills d = [] then 0
              else of_nat (length (lookup_present (lower_dict (required_skills d))
                                     (it (map lower (skills p)))))
                   / of_nat (length (required_skills d)) * 100),
          priority_skills =
            take 3 (values_absent (lower_dict (required_skills d)) (set (map lower (skills p))))
            @ take 2 (values_absent (lower_dict (nice_to_have d)) (set (map lower (skills p))))\<rparr>"
  using assms by (simp add: analyze_skills_gap_def Let_def py_div_def)

lemma analyze_skills_gap_unknown:
  "map_of db target = None \<Longrightarrow> analyze_skills_gap db it p target = Inl CareerNotFound"
  by (simp add: analyze_skills_gap_def)

lemma get_learning_path_unknown:
  "map_of db target = None \<Longrightarrow> get_learning_path db it p target = Inr []"
  by (simp add: get_learning_path_def analyze_skills_gap_unknown)

text \<open>
  Claim C6. For a career name that is not a key of the catalog, \<^verbatim>\<open>analyze_skills_gap\<close>
  returns the not-found failure, while \<^verbatim>\<open>get_learning_path\<close> turns that failure into
  the empty list of modules instead of passing it on.
\<close>

theorem unknown_career_asymmetry:
  "map_of db target = None \<Longrightarrow>
   analyze_skills_gap db it p target = Inl CareerNotFound
   \<and> get_learning_path db it p target = Inr []"
  by (simp add: analyze_skills_gap_unknown get_learning_path_unknown)

theorem unknown_career_asymmetry_witness:
  "map_of CAREER_DATABASE ''Astronaut'' = None
   \<and> analyze_skills_gap CAREER_DATABASE remdups sample_profile ''Astronaut'' = Inl CareerNotFound
   \<and> get_learning_path CAREER_DATABASE remdups sample_profile ''Astronaut'' = Inr []"
proof -
  have h: "map_of CAREER_DATABASE ''Astronaut'' = None"
    by (simp add: CAREER_DATABASE_def)
  from unknown_career_asymmetry [OF h] h show ?thesis by simp
qed



section \<open>The worked example\<close>

text \<open>
  Claim C9. The profile with skills Python, SQL, Machine Learning, Statistics and Pandas, no
  interests and three years of experience (whatever its education level and GPA), scored
  against the catalog's Data Scientist record with its ten required skills: the required part
  of the skill score is 35, the nice-to-have part 0, the interest boost 0, the experience
  boost 5, the match score 40, and the skills to learn are Data Visualization, NumPy,
  Scikit-learn, Deep Learning and Data Analysis, in this order.
\<close>

theorem data_scientist_example:
  "map_of CAREER_DATABASE ''Data Scientist'' = Some Data_Scientist
   \<and> length (required_skills Data_Scientist) = 10
   \<and> required_score (skills sample_profile) (required_skills Data_Scientist) = Inr 35
   \<and> nice_score (skills sample_profile) (nice_to_have Data_Scientist) = Inr 0
   \<and> calculate_interest_boost (interests sample_profile) ''Data Scientist'' Data_Scientist = 0
   \<and> calculate_experience_match (experience_or_0 sample_profile) Data_Scientist = 5
   \<and> map_sum id (\<lambda>r. (career r, match_score r, skills_to_learn r))
        (recommend_one it (sample_profile\<lparr>education_level := e, gpa := g\<rparr>)
           (''Data Scientist'', Data_Scientist))
       = Inr (''Data Scientist'', 40,
              [''Data Visualization'', ''NumPy'', ''Scikit-learn'', ''Deep Learning'',
               ''Data Analysis''])"
proof -
  have a: "map_of CAREER_DATABASE ''Data Scientist'' = Some Data_Scientist"
    by (simp add: CAREER_DATABASE_def)
  have b: "length (required_skills Data_Scientist) = 10"
    by (simp add: Data_Scientist_def)
  have c: "required_score (skills sample_profile) (required_skills Data_Scientist) = Inr 35"
    by code_simp
  have d: "nice_score (skills sample_profile) (nice_to_have Data_Scientist) = Inr 0"
    by code_simp
  have e: "calculate_interest_boost (interests sample_profile) ''Data Scientist''
             Data_Scientist = 0"
    by (simp add: calculate_interest_boost_def sample_profile_def)
  have f: "calculate_experience_match (experience_or_0 sample_profile) Data_Scientist = 5"
    by (simp add: calculate_experience_match_def experience_or_0_def sample_profile_def)
  have g: "map_sum id (\<lambda>r. (career r, match_score r, skills_to_learn r))
        (recommend_one it (sample_profile\<lparr>education_level := e, gpa := g\<rparr>)
           (''Data Scientist'', Data_Scientist))
       = Inr (''Data Scientist'', 40,
              [''Data Visualization'', ''NumPy'', ''Scikit-learn'', ''Deep Learning'',
               ''Data Analysis''])"
    by code_simp
  from a b c d e f g show ?thesis by simp
qed

section \<open>The case-folded dictionary\<close>


lemma update_fresh: "k \<notin> fst ` set al \<Longrightarrow> AList.update k v al = al @ [(k, v)]"
  by (induction al) auto


lemma fold_update_distinct:
  "distinct (map fst d0) \<Longrightarrow>
   distinct (map fst (fold (\<lambda>s d. AList.update (lower s) s d) xs d0))"
  by (induction xs arbitrary: d0) (simp_all add: distinct_update)


lemma fold_update_plain:
  "distinct (map lower xs) \<Longrightarrow> lower ` set xs \<inter> fst ` set d0 = {} \<Longrightarrow>
   fold (\<lambda>s d. AList.update (lower s) s d) xs d0 = d0 @ map (\<lambda>s. (lower s, s)) xs"
proof (induction xs arbitrary: d0)
  case Nil
  then show ?case by simp
next
  case (Cons x xs)
  from Cons.prems have fresh: "lower x \<notin> fst ` set d0" by auto
  then have u: "AList.update (lower x) x d0 = d0 @ [(lower x, x)]" by (rule update_fresh)
  from Cons.prems have d: "distinct (map lower xs)" by simp
  from Cons.prems have "lower ` set xs \<inter> fst ` set (d0 @ [(lower x, x)]) = {}" by auto
  from Cons.IH [OF d this] u show ?case by simp
qed


lemma lower_dict_distinct: "distinct (map fst (lower_dict xs))"
  using fold_update_distinct [of "[]" xs] by (simp add: lower_dict_def)


lemma lower_dict_plain:
  "distinct (map lower xs) \<Longrightarrow> lower_dict xs = map (\<lambda>s. (lower s, s)) xs"
  using fold_update_plain [of xs "[]"] by (simp add: lower_dict_def)







lemma values_absent_plain:
  "distinct (map lower xs) \<Longrightarrow>
   values_absent (lower_dict xs) S = filter (\<lambda>s. lower s \<notin> S) xs"
  by (simp add: lower_dict_plain values_absent_def filter_map comp_def)

section \<open>Gap analysis\<close>






section \<open>Learning path\<close>

lemma get_learning_path_found:
  assumes "analyze_skills_gap db it p target = Inr g"
  shows "get_learning_path db it p target
           = Inr (map learning_module_of (enumerate 1 (priority_skills g)))"
  using assms by (simp add: get_learning_path_def)

lemma learning_module_nth:
  assumes "i < length ps"
  shows "map learning_module_of (enumerate 1 ps) ! i = learning_module_of (Suc i, ps ! i)"
  using assms by (simp add: nth_enumerate_eq)

text \<open>
  Claim C7. For a career of the catalog \<^verbatim>\<open>get_learning_path\<close> returns, without raising,
  one module per priority skill, at most five. The module at position \<open>i\<close> (from 0) has
  order \<open>i + 1\<close>; its difficulty is beginner for Python, JavaScript, HTML, CSS and Git,
  advanced for Machine Learning, Deep Learning and System Design, and intermediate for every
  other skill; its estimated weeks are 8, 12 or 16 for beginner, intermediate or advanced. The
  endpoint reports, for a non-empty path, the sum of the modules' weeks as total weeks and the
  number of modules as total skills; for an empty path (the user lacks none of the skills) it
  answers 404 and reports no aggregate.
\<close>

theorem learning_path_modules:
  assumes "map_of db target = Some d"
  shows "\<exists>g path. analyze_skills_gap db it p target = Inr g
      \<and> get_learning_path db it p target = Inr path
      \<and> map skill path = priority_skills g
      \<and> length path \<le> 5
      \<and> (\<forall>i < length path.
            module_order (path ! i) = int i + 1
          \<and> difficulty (path ! i)
              = (if skill (path ! i) \<in> {''Python'', ''JavaScript'', ''HTML'', ''CSS'', ''Git''}
                 then Beginner
                 else if skill (path ! i)
                           \<in> {''Machine Learning'', ''Deep Learning'', ''System Design''}
                 then Advanced else Intermediate)
          \<and> estimated_weeks (path ! i)
              = (case difficulty (path ! i) of
                   Beginner \<Rightarrow> 8 | Intermediate \<Rightarrow> 12 | Advanced \<Rightarrow> 16))
      \<and> (path \<noteq> [] \<longrightarrow>
            (\<exists>resp. get_learning_path_endpoint db it p target = Inr resp
               \<and> learning_path resp = path
               \<and> total_weeks resp = sum_list (map estimated_weeks path)
               \<and> total_skills resp = length path))
      \<and> (path = [] \<longrightarrow>
            get_learning_path_endpoint db it p target
              = Inl (HTTPException 404 ''Career not found or no learning path needed''))"
proof -
  obtain g where g: "analyze_skills_gap db it p target = Inr g"
      and pr: "priority_skills g =
                 take 3 (values_absent (lower_dict (required_skills d))
                           (set (map lower (skills p))))
                 @ take 2 (values_absent (lower_dict (nice_to_have d))
                             (set (map lower (skills p))))"
    using analyze_skills_gap_found [OF assms, of it p] by simp
  define path where "path = map learning_module_of (enumerate 1 (priority_skills g))"
  have gp: "get_learning_path db it p target = Inr path"
    unfolding path_def using g by (rule get_learning_path_found)
  have "skill (learning_module_of q) = snd q" for q
    by (simp add: learning_module_of_def Let_def)
  then have "map skill path = map snd (enumerate 1 (priority_skills g))"
    by (simp add: path_def comp_def)
  then have sk: "map skill path = priority_skills g"
    by simp
  have len: "length path = length (priority_skills g)"
    by (simp add: path_def)
  have l5: "length path \<le> 5"
    unfolding len pr by simp
  have each: "module_order (path ! i) = int i + 1
          \<and> difficulty (path ! i)
              = (if skill (path ! i) \<in> {''Python'', ''JavaScript'', ''HTML'', ''CSS'', ''Git''}
                 then Beginner
                 else if skill (path ! i)
                           \<in> {''Machine Learning'', ''Deep Learning'', ''System Design''}
                 then Advanced else Intermediate)
          \<and> estimated_weeks (path ! i)
              = (case difficulty (path ! i) of
                   Beginner \<Rightarrow> 8 | Intermediate \<Rightarrow> 12 | Advanced \<Rightarrow> 16)"
    if "i < length path" for i
  proof -
    from that len have "i < length (priority_skills g)" by simp
    then have "path ! i = learning_module_of (Suc i, priority_skills g ! i)"
      unfolding path_def by (rule learning_module_nth)
    then show ?thesis
      by (simp add: learning_module_of_def Let_def skill_difficulty_def
          skill_time_estimates_def)
  qed
  have ok: "path \<noteq> [] \<longrightarrow>
            (\<exists>resp. get_learning_path_endpoint db it p target = Inr resp
               \<and> learning_path resp = path
               \<and> total_weeks resp = sum_list (map estimated_weeks path)
               \<and> total_skills resp = length path)"
    by (simp add: get_learning_path_endpoint_def gp)
  have none: "path = [] \<longrightarrow>
            get_learning_path_endpoint db it p target
              = Inl (HTTPException 404 ''Career not found or no learning path needed'')"
    by (simp add: get_learning_path_endpoint_def gp)
  from g gp sk l5 each ok none show ?thesis by blast
qed

theorem learning_path_modules_witness:
  "map_of CAREER_DATABASE ''Data Scientist'' = Some Data_Scientist
   \<and> (\<exists>path. get_learning_path CAREER_DATABASE remdups sample_profile ''Data Scientist''
                = Inr path
          \<and> length path \<le> 5
          \<and> map skill path
              = [''Data Visualization'', ''NumPy'', ''Scikit-learn'', ''TensorFlow'', ''PyTorch'']
          \<and> map module_order path = [1, 2, 3, 4, 5])
   \<and> map_sum id (\<lambda>r. (total_weeks r, total_skills r))
        (get_learning_path_endpoint CAREER_DATABASE remdups sample_profile ''Data Scientist'')
       = Inr (60, 5)"
proof -
  have d: "map_of CAREER_DATABASE ''Data Scientist'' = Some Data_Scientist"
    by (simp add: CAREER_DATABASE_def)
  have s: "map_sum id (\<lambda>path. (map skill path, map module_order path))
             (get_learning_path CAREER_DATABASE remdups sample_profile ''Data Scientist'')
           = Inr ([''Data Visualization'', ''NumPy'', ''Scikit-learn'', ''TensorFlow'',
                   ''PyTorch''], [1, 2, 3, 4, 5])"
    by code_simp
  have e: "map_sum id (\<lambda>r. (total_weeks r, total_skills r))
        (get_learning_path_endpoint CAREER_DATABASE remdups sample_profile ''Data Scientist'')
       = Inr (60, 5)"
    by code_simp
  from learning_path_modules [where it = remdups and p = sample_profile, OF d]
  obtain g path where
      p: "get_learning_path CAREER_DATABASE remdups sample_profile ''Data Scientist'' = Inr path"
      and l: "length path \<le> 5"
    by - (erule exE, erule exE, elim conjE, rule that)
  from s p have "map skill path
              = [''Data Visualization'', ''NumPy'', ''Scikit-learn'', ''TensorFlow'', ''PyTorch'']"
      and "map module_order path = [1, 2, 3, 4, 5]"
    by simp_all
  with p l have "\<exists>path. get_learning_path CAREER_DATABASE remdups sample_profile
                         ''Data Scientist'' = Inr path
          \<and> length path \<le> 5
          \<and> map skill path
              = [''Data Visualization'', ''NumPy'', ''Scikit-learn'', ''TensorFlow'', ''PyTorch'']
          \<and> map module_order path = [1, 2, 3, 4, 5]"
    by (intro exI [of _ path] conjI)
  with d e show ?thesis
    by (intro conjI)
qed

end
